theory Spec2Isabelle
  imports Main "HOL-Library.Word"
begin

section \<open>Element types and the algorithm dispatcher\<close>

text \<open>
  The enumeration \<open>DataType\<close> is declared outside \<open>gloo_operations.cc\<close>. The switch of
  \<open>GetAlgorithmsForType\<close> names nine of its enumerators and has a \<open>default\<close> branch for
  the rest; \<open>HOROVOD_OTHER n\<close> stands for any enumerator the switch does not name.
\<close>

datatype DataType =
    HOROVOD_UINT8
  | HOROVOD_INT8
  | HOROVOD_UINT16
  | HOROVOD_INT16
  | HOROVOD_INT32
  | HOROVOD_INT64
  | HOROVOD_FLOAT32
  | HOROVOD_FLOAT64
  | HOROVOD_BOOL
  | HOROVOD_OTHER nat

text \<open>
  The C++ element types that instantiate the template \<open>GlooAlgorithms<T>\<close>, with their
  \<open>sizeof\<close> on the usual LP64 targets (\<open>float_t\<close> is \<open>float\<close> and \<open>double_t\<close> is
  \<open>double\<close> there).
\<close>

datatype CType =
    u_int8_t
  | int8_t
  | u_int16_t
  | int16_t
  | int32_t
  | int64_t
  | float_t
  | double_t
  | bool_t

fun sizeof :: "CType \<Rightarrow> nat" where
  "sizeof u_int8_t = 1"
| "sizeof int8_t = 1"
| "sizeof u_int16_t = 2"
| "sizeof int16_t = 2"
| "sizeof int32_t = 4"
| "sizeof int64_t = 8"
| "sizeof float_t = 4"
| "sizeof double_t = 8"
| "sizeof bool_t = 1"

type_synonym GlooContext = nat

text \<open>
  An object of class \<open>GlooAlgorithms<T>\<close>: the template argument and the two members
  set by the constructor (\<open>gloo_context_\<close> and \<open>element_size_\<close> in the source; a name
  cannot end with an underscore here, hence the suffix).
\<close>

record GlooAlgorithms =
  elem_type :: CType
  gloo_context_m :: GlooContext
  element_size_m :: int

definition new_GlooAlgorithms :: "CType \<Rightarrow> GlooContext \<Rightarrow> int \<Rightarrow> GlooAlgorithms" where
  "new_GlooAlgorithms T gloo_context element_size =
     \<lparr>elem_type = T, gloo_context_m = gloo_context, element_size_m = element_size\<rparr>"

definition ElementSize :: "GlooAlgorithms \<Rightarrow> int" where
  "ElementSize this = element_size_m this"

datatype exn = logic_error string

text \<open>
  \<open>GetAlgorithmsForType\<close>. \<open>DataType_Name\<close> is generated code that is not part of the
  file, so the function that prints a type tag is a parameter.
\<close>

fun GetAlgorithmsForType ::
  "(DataType \<Rightarrow> string) \<Rightarrow> DataType \<Rightarrow> GlooContext \<Rightarrow> exn + GlooAlgorithms" where
  "GetAlgorithmsForType DataType_Name HOROVOD_UINT8 gloo_context =
     Inr (new_GlooAlgorithms u_int8_t gloo_context 1)"
| "GetAlgorithmsForType DataType_Name HOROVOD_INT8 gloo_context =
     Inr (new_GlooAlgorithms int8_t gloo_context 1)"
| "GetAlgorithmsForType DataType_Name HOROVOD_UINT16 gloo_context =
     Inr (new_GlooAlgorithms u_int16_t gloo_context 2)"
| "GetAlgorithmsForType DataType_Name HOROVOD_INT16 gloo_context =
     Inr (new_GlooAlgorithms int16_t gloo_context 2)"
| "GetAlgorithmsForType DataType_Name HOROVOD_INT32 gloo_context =
     Inr (new_GlooAlgorithms int32_t gloo_context 4)"
| "GetAlgorithmsForType DataType_Name HOROVOD_INT64 gloo_context =
     Inr (new_GlooAlgorithms int64_t gloo_context 8)"
| "GetAlgorithmsForType DataType_Name HOROVOD_FLOAT32 gloo_context =
     Inr (new_GlooAlgorithms float_t gloo_context 4)"
| "GetAlgorithmsForType DataType_Name HOROVOD_FLOAT64 gloo_context =
     Inr (new_GlooAlgorithms double_t gloo_context 8)"
| "GetAlgorithmsForType DataType_Name HOROVOD_BOOL gloo_context =
     Inr (new_GlooAlgorithms bool_t gloo_context 1)"
| "GetAlgorithmsForType DataType_Name dtype gloo_context =
     Inl (logic_error (''Type '' @ DataType_Name dtype @ '' is not supported in Gloo mode.''))"

text \<open>
  The specification's table of native byte widths, written from its words: 1 for the
  8-bit integers and the boolean, 2 for the 16-bit integers, 4 for the 32-bit types and
  8 for the 64-bit types; no width for a type outside the supported set.
\<close>

fun spec_native_width :: "DataType \<Rightarrow> nat option" where
  "spec_native_width HOROVOD_UINT8 = Some 1"
| "spec_native_width HOROVOD_INT8 = Some 1"
| "spec_native_width HOROVOD_BOOL = Some 1"
| "spec_native_width HOROVOD_UINT16 = Some 2"
| "spec_native_width HOROVOD_INT16 = Some 2"
| "spec_native_width HOROVOD_INT32 = Some 4"
| "spec_native_width HOROVOD_FLOAT32 = Some 4"
| "spec_native_width HOROVOD_INT64 = Some 8"
| "spec_native_width HOROVOD_FLOAT64 = Some 8"
| "spec_native_width (HOROVOD_OTHER n) = None"

section \<open>Tensors, entries and collaborators\<close>

text \<open>
  A buffer is known to the executors only by its address. \<open>Tensor\<close> keeps what the
  executors read from a tensor: \<open>dtype()\<close>, \<open>data()\<close>, \<open>size()\<close> (a byte count) and
  \<open>shape().num_elements()\<close>, the last two being 64-bit integers.
\<close>

type_synonym ptr = nat

record Tensor =
  dtype :: DataType
  data :: ptr
  tensor_size :: "64 word"
  shape_num_elements :: "64 word"

record TensorTableEntry =
  tensor :: Tensor
  output_tensor :: Tensor
  root_rank :: int

datatype Status = OK | Failure string

fun ok :: "Status \<Rightarrow> bool" where
  "ok OK = True"
| "ok (Failure msg) = False"

record HorovodGlobalState =
  rank :: int
  world_size :: int

text \<open>
  The members of an executor object (\<open>gloo_context_\<close> and \<open>global_state_\<close> in the
  source).
\<close>

record GlooOp =
  op_gloo_context :: GlooContext
  op_global_state :: HorovodGlobalState

datatype activity =
    MEMCPY_IN_FUSION_BUFFER
  | MEMCPY_OUT_FUSION_BUFFER
  | ALLOCATE_OUTPUT
  | GLOO_ALLREDUCE
  | GLOO_ALLGATHER
  | GLOO_BCAST

text \<open>
  Every call an executor makes to something outside the file is recorded, in program
  order, with its arguments: the timeline, \<open>std::memcpy\<close>, the fusion-buffer and
  allocation helpers of the base classes, and the three algorithms of the backend
  (whose \<open>run()\<close> is the collective communication).
\<close>

datatype event =
    ActivityStartAll "TensorTableEntry list" activity
  | ActivityEndAll "TensorTableEntry list"
  | memcpy ptr ptr "64 word"
  | AllocateOutput_call "TensorTableEntry list"
  | MemcpyInFusionBuffer_reduce "TensorTableEntry list"
  | MemcpyOutFusionBuffer_reduce ptr "TensorTableEntry list"
  | MemcpyInFusionBuffer_gather "TensorTableEntry list" "32 word list" int
  | MemcpyOutFusionBuffer_gather "64 word list list" "64 word list list" ptr int
      "TensorTableEntry list"
  | AllreduceRing_run CType GlooContext "ptr list" "32 word"
  | AllgatherRing_run CType GlooContext "ptr list" ptr "32 word"
  | BroadcastOneToAll_run CType GlooContext "ptr list" "64 word" int int

text \<open>
  What \<open>AllocateOutput\<close> hands back: its status, the output tensor it gave to each
  entry (in order), and the two tables it fills.
\<close>

record allocation =
  status :: Status
  outputs :: "Tensor list"
  entry_component_sizes :: "64 word list list"
  recvcounts :: "32 word list"

text \<open>
  The functions the executors call that are defined in other files of the repository.
  Their results are parameters of the model; \<open>fusion_buffer_data\<close> is the address
  that \<open>MemcpyInFusionBuffer\<close> stores in its out-parameter \<open>buffer_data\<close>.
\<close>

record 'r helpers =
  DataType_Name :: "DataType \<Rightarrow> string"
  NumElements :: "TensorTableEntry list \<Rightarrow> 64 word"
  AllocateOutput :: "TensorTableEntry list \<Rightarrow> 'r \<Rightarrow> allocation"
  SetDisplacements :: "32 word list \<Rightarrow> 32 word list"
  SetEntryComponentOffsets ::
    "TensorTableEntry list \<Rightarrow> 64 word list list \<Rightarrow> 32 word list \<Rightarrow> 64 word list list"
  fusion_buffer_data :: "TensorTableEntry list \<Rightarrow> ptr"

text \<open>
  The entries are passed to \<open>AllocateOutput\<close> by reference; it sets the \<open>output\<close> of
  each entry (\<open>output_tensor\<close> here, \<open>output\<close> being a keyword) and leaves the rest of
  the entry alone.
\<close>

fun set_outputs :: "TensorTableEntry list \<Rightarrow> Tensor list \<Rightarrow> TensorTableEntry list" where
  "set_outputs [] ts = []"
| "set_outputs (e # es) [] = e # es"
| "set_outputs (e # es) (t # ts) = e\<lparr>output_tensor := t\<rparr> # set_outputs es ts"

text \<open>
  How a call of \<open>Execute\<close> ends: it returns a status, an exception leaves it, the
  \<open>assert\<close> fails (which aborts the process, in a build without \<open>NDEBUG\<close>), or
  it indexes an empty vector.
\<close>

datatype outcome =
    Returned Status
  | Thrown exn
  | AssertionFailed string
  | UndefinedBehaviour

section \<open>The three algorithms of \<open>GlooAlgorithms<T>\<close>\<close>

definition Allreduce :: "GlooAlgorithms \<Rightarrow> ptr \<Rightarrow> 32 word \<Rightarrow> event list" where
  "Allreduce this buffer_data num_elements =
     [AllreduceRing_run (elem_type this) (gloo_context_m this) [buffer_data] num_elements]"

definition Allgather :: "GlooAlgorithms \<Rightarrow> ptr \<Rightarrow> ptr \<Rightarrow> 32 word \<Rightarrow> event list" where
  "Allgather this buffer_data buffer_out num_elements =
     [AllgatherRing_run (elem_type this) (gloo_context_m this) [buffer_data] buffer_out
        num_elements]"

text \<open>The count is converted from \<open>int\<close> to \<open>size_t\<close>, which extends the sign.\<close>

definition Broadcast :: "GlooAlgorithms \<Rightarrow> ptr \<Rightarrow> 32 word \<Rightarrow> int \<Rightarrow> event list" where
  "Broadcast this buffer_data num_elements root =
     [BroadcastOneToAll_run (elem_type this) (gloo_context_m this) [buffer_data]
        (scast num_elements) root root]"

section \<open>The executors\<close>

text \<open>\<open>GlooAllreduce::Execute\<close>. The cast \<open>(int)\<close> keeps the low 32 bits.\<close>

definition GlooAllreduce_Execute ::
  "'r helpers \<Rightarrow> GlooOp \<Rightarrow> TensorTableEntry list \<Rightarrow> 'r \<Rightarrow> outcome \<times> event list" where
  "GlooAllreduce_Execute hs this entries response =
     (case entries of
        [] \<Rightarrow> (UndefinedBehaviour, [])
      | first_entry # rest \<Rightarrow>
          let num_elements = (ucast (NumElements hs entries) :: 32 word);
              (buffer_data, copy_in) =
                (if length entries > 1
                 then (fusion_buffer_data hs entries,
                       [ActivityStartAll entries MEMCPY_IN_FUSION_BUFFER,
                        MemcpyInFusionBuffer_reduce entries,
                        ActivityEndAll entries])
                 else (data (output_tensor first_entry),
                       [memcpy (data (output_tensor first_entry)) (data (tensor first_entry))
                          (tensor_size (tensor first_entry))]));
              started = copy_in @ [ActivityStartAll entries GLOO_ALLREDUCE]
          in (case GetAlgorithmsForType (DataType_Name hs) (dtype (tensor first_entry))
                     (op_gloo_context this) of
                Inl e \<Rightarrow> (Thrown e, started)
              | Inr gloo_algos \<Rightarrow>
                  (Returned OK,
                   started @ Allreduce gloo_algos buffer_data num_elements
                     @ [ActivityEndAll entries]
                     @ (if length entries > 1
                        then [ActivityStartAll entries MEMCPY_OUT_FUSION_BUFFER,
                              MemcpyOutFusionBuffer_reduce buffer_data entries,
                              ActivityEndAll entries]
                        else []))))"

text \<open>
  \<open>GlooAllgather::Execute\<close>. \<open>sendbuf\<close> is assigned as in the source and, as in the
  source, not used afterwards: both buffer arguments of \<open>Allgather\<close> are
  \<open>buffer_data\<close>.
\<close>

definition GlooAllgather_Execute ::
  "'r helpers \<Rightarrow> GlooOp \<Rightarrow> TensorTableEntry list \<Rightarrow> 'r \<Rightarrow> outcome \<times> event list" where
  "GlooAllgather_Execute hs this entries response =
     (let a = AllocateOutput hs entries response;
          allocated = set_outputs entries (outputs a);
          allocating = [ActivityStartAll entries ALLOCATE_OUTPUT, AllocateOutput_call entries]
      in case allocated of
           [] \<Rightarrow> (UndefinedBehaviour, [])
         | first_entry # rest \<Rightarrow>
             if \<not> ok (status a) then (Returned (status a), allocating)
             else
               let displcmnts = SetDisplacements hs (recvcounts a);
                   entry_component_offsets =
                     SetEntryComponentOffsets hs allocated (entry_component_sizes a)
                       (recvcounts a);
                   planned = allocating @ [ActivityEndAll allocated]
               in (case GetAlgorithmsForType (DataType_Name hs) (dtype (tensor first_entry))
                         (op_gloo_context this) of
                    Inl e \<Rightarrow> (Thrown e, planned)
                  | Inr gloo_algos \<Rightarrow>
                      let element_size = ElementSize gloo_algos;
                          total_num_elements = NumElements hs allocated;
                          (sendbuf, buffer_data, copy_in) =
                            (if length allocated > 1
                             then (None, fusion_buffer_data hs allocated,
                                   [ActivityStartAll allocated MEMCPY_IN_FUSION_BUFFER,
                                    MemcpyInFusionBuffer_gather allocated displcmnts
                                      element_size,
                                    ActivityEndAll allocated])
                             else (Some (data (tensor first_entry)),
                                   data (output_tensor first_entry), []))
                      in (Returned OK,
                          planned @ copy_in
                            @ [ActivityStartAll allocated GLOO_ALLGATHER]
                            @ Allgather gloo_algos buffer_data buffer_data
                                (ucast total_num_elements)
                            @ [ActivityEndAll allocated]
                            @ (if length allocated > 1
                               then [ActivityStartAll allocated MEMCPY_OUT_FUSION_BUFFER,
                                     MemcpyOutFusionBuffer_gather entry_component_offsets
                                       (entry_component_sizes a) buffer_data element_size
                                       allocated,
                                     ActivityEndAll allocated]
                               else []))))"

text \<open>
  \<open>GlooBroadcast::Execute\<close>. The macro \<open>assert\<close> tests its condition only when the
  file is compiled without \<open>NDEBUG\<close>; with \<open>NDEBUG\<close> it expands to nothing. The source
  fixes no build flag, so the flag is the first parameter.
\<close>

definition GlooBroadcast_Execute ::
  "bool \<Rightarrow> 'r helpers \<Rightarrow> GlooOp \<Rightarrow> TensorTableEntry list \<Rightarrow> 'r \<Rightarrow> outcome \<times> event list"
  where
  "GlooBroadcast_Execute NDEBUG hs this entries response =
     (if \<not> NDEBUG \<and> length entries \<noteq> 1 then (AssertionFailed ''entries.size() == 1'', [])
      else case entries of
        [] \<Rightarrow> (UndefinedBehaviour, [])
      | e # rest \<Rightarrow>
          let data_ptr =
                (if rank (op_global_state this) = root_rank e then data (tensor e)
                 else data (output_tensor e));
              started = [ActivityStartAll entries GLOO_BCAST]
          in (case GetAlgorithmsForType (DataType_Name hs) (dtype (tensor e))
                     (op_gloo_context this) of
                Inl x \<Rightarrow> (Thrown x, started)
              | Inr gloo_algos \<Rightarrow>
                  (Returned OK,
                   started
                     @ Broadcast gloo_algos data_ptr (ucast (shape_num_elements (tensor e)))
                         (root_rank e)
                     @ [ActivityEndAll entries])))"

section \<open>Reading a log\<close>

text \<open>The calls that start collective communication.\<close>

fun is_collective :: "event \<Rightarrow> bool" where
  "is_collective (AllreduceRing_run T c ps n) = True"
| "is_collective (AllgatherRing_run T c ps out n) = True"
| "is_collective (BroadcastOneToAll_run T c ps n r rp) = True"
| "is_collective ev = False"

definition collective_calls :: "event list \<Rightarrow> event list" where
  "collective_calls log = filter is_collective log"

text \<open>
  The phase notifications of a log come in matched pairs when every start is followed
  by an end before the next start, and nothing is left open at the end.
  \<open>matched opened log\<close> scans the log, \<open>opened\<close> telling whether a phase is open.
\<close>

fun matched :: "bool \<Rightarrow> event list \<Rightarrow> bool" where
  "matched opened [] = (\<not> opened)"
| "matched opened (ActivityStartAll es a # log) = (\<not> opened \<and> matched True log)"
| "matched opened (ActivityEndAll es # log) = (opened \<and> matched False log)"
| "matched opened (ev # log) = matched opened log"

text \<open>The element types of the algorithms that a log shows running, in order.\<close>

fun algorithm_of :: "event \<Rightarrow> CType list" where
  "algorithm_of (AllreduceRing_run T c ps n) = [T]"
| "algorithm_of (AllgatherRing_run T c ps out n) = [T]"
| "algorithm_of (BroadcastOneToAll_run T c ps n r rp) = [T]"
| "algorithm_of ev = []"

definition algorithms_run :: "event list \<Rightarrow> CType list" where
  "algorithms_run log = concat (map algorithm_of log)"

section \<open>The all-gather planner\<close>

text \<open>
  \<open>GlooAllgather::Execute\<close> calls \<open>SetDisplacements\<close> and \<open>SetEntryComponentOffsets\<close>,
  which are defined in another file of the repository. The planner of this section
  follows section 4.3 of the specification instead.
\<close>

text \<open>
  Modelled from the spec: the size table filled by \<open>AllocateOutput\<close> (not in this
  file): a mapping from (tensor index, rank) to a byte size, for \<open>N\<close> tensors and \<open>P\<close>
  ranks.
\<close>

type_synonym SizeTable = "nat \<Rightarrow> nat \<Rightarrow> nat"

text \<open>
  Modelled from the spec: the per-rank totals that \<open>SetDisplacements\<close> (not in this
  file) works on: per-rank total = sum over i of size[i][r].
\<close>

definition totalSize :: "nat \<Rightarrow> SizeTable \<Rightarrow> nat \<Rightarrow> nat" where
  "totalSize N sizes r = sum_list (map (\<lambda>i. sizes i r) [0..<N])"

text \<open>
  Modelled from the spec: the loop of \<open>SetDisplacements\<close> (not in this file): the
  exclusive prefix sum of a list, in order: each position receives the sum of
  everything before it, \<open>acc\<close> being the running sum.
\<close>

fun exclusive_prefix_sum :: "nat \<Rightarrow> nat list \<Rightarrow> nat list" where
  "exclusive_prefix_sum acc [] = []"
| "exclusive_prefix_sum acc (t # ts) = acc # exclusive_prefix_sum (acc + t) ts"

text \<open>
  Modelled from the spec: \<open>SetDisplacements\<close> (not in this file), the specification's
  \<open>computeDisplacements\<close>: displacement[r] = exclusive prefix sum of per-rank totals
  across ranks 0..P-1, in rank order.
\<close>

definition computeDisplacements :: "nat \<Rightarrow> nat \<Rightarrow> SizeTable \<Rightarrow> nat list" where
  "computeDisplacements N P sizes = exclusive_prefix_sum 0 (map (totalSize N sizes) [0..<P])"

text \<open>
  Modelled from the spec: the loop of \<open>SetEntryComponentOffsets\<close> (not in this file).
  The offset of a tensor for a rank is the displacement of the rank plus the sizes of
  the tensors before it, so the table is built tensor after tensor: the row of tensor 0
  is the displacement table, and the row of tensor \<open>i + 1\<close> is the row of tensor \<open>i\<close>
  moved on, rank by rank, by the size of tensor \<open>i\<close>. \<open>offset_rows sizes i k cur\<close>
  yields the rows of the \<open>k\<close> tensors from \<open>i\<close> on, \<open>cur\<close> being the row of tensor \<open>i\<close>.
\<close>

fun offset_rows :: "SizeTable \<Rightarrow> nat \<Rightarrow> nat \<Rightarrow> nat list \<Rightarrow> nat list list" where
  "offset_rows sizes i 0 cur = []"
| "offset_rows sizes i (Suc k) cur =
     cur # offset_rows sizes (Suc i) k (map (\<lambda>(r, c). c + sizes i r) (enumerate 0 cur))"

text \<open>
  Modelled from the spec: \<open>SetEntryComponentOffsets\<close> (not in this file), the
  specification's \<open>computeOffsets\<close>, from a size table and a displacement table to the
  offset table, one row per tensor and one column per rank.
\<close>

definition computeOffsets :: "nat \<Rightarrow> SizeTable \<Rightarrow> nat list \<Rightarrow> nat list list" where
  "computeOffsets N sizes displacement = offset_rows sizes 0 N displacement"

section \<open>The fusion buffer\<close>

text \<open>
  \<open>MemcpyInFusionBuffer\<close> and \<open>MemcpyOutFusionBuffer\<close> are defined in another file of
  the repository. Section 4.2 of the specification gives their contract as \<open>packInto\<close>
  and \<open>unpackFrom\<close>, which this section follows.
\<close>

type_synonym byte = "8 word"

text \<open>
  Modelled from the spec: what \<open>MemcpyInFusionBuffer\<close> and \<open>MemcpyOutFusionBuffer\<close>
  (not in this file) touch of an entry: the bytes of its input data and the bytes at
  its output location.
\<close>

record fused_entry =
  input_bytes :: "byte list"
  output_bytes :: "byte list"

text \<open>
  Modelled from the spec: \<open>byteSize(entry)\<close>, the number of bytes of the entry's input
  data that \<open>MemcpyInFusionBuffer\<close> (not in this file) copies.
\<close>

definition byteSize :: "fused_entry \<Rightarrow> nat" where
  "byteSize e = length (input_bytes e)"

text \<open>
  Modelled from the spec: one copy of \<open>MemcpyInFusionBuffer\<close> (not in this file):
  \<open>bytes\<close> is written into \<open>dest\<close> from offset \<open>off\<close> on.
\<close>

definition copy_at :: "byte list \<Rightarrow> nat \<Rightarrow> byte list \<Rightarrow> byte list" where
  "copy_at dest off bytes = take off dest @ bytes @ drop (off + length bytes) dest"

text \<open>
  Modelled from the spec: the loop of \<open>MemcpyInFusionBuffer\<close> (not in this file): for
  each entry, copy exactly \<open>byteSize\<close> bytes of its input into the buffer at the next
  free offset and advance the cursor by that many bytes.
\<close>

fun pack_from :: "nat \<Rightarrow> fused_entry list \<Rightarrow> byte list \<Rightarrow> byte list" where
  "pack_from cursor [] dest = dest"
| "pack_from cursor (e # es) dest =
     pack_from (cursor + byteSize e) es (copy_at dest cursor (input_bytes e))"

datatype fusion_error = PreconditionViolation

text \<open>
  Modelled from the spec: \<open>MemcpyInFusionBuffer\<close> (not in this file), the
  specification's \<open>packInto\<close>: the total number of bytes must not exceed the capacity
  of the buffer; otherwise packing is a fatal precondition failure.
\<close>

definition packInto :: "fused_entry list \<Rightarrow> byte list \<Rightarrow> fusion_error + byte list" where
  "packInto entries destinationBuffer =
     (if sum_list (map byteSize entries) \<le> length destinationBuffer
      then Inr (pack_from 0 entries destinationBuffer)
      else Inl PreconditionViolation)"

text \<open>
  Modelled from the spec: the loop of \<open>MemcpyOutFusionBuffer\<close> (not in this file): the
  inverse operation copies each tensor's slice out of the buffer, at the offsets used
  during packing, into the entry's output location.
\<close>

fun unpack_from :: "nat \<Rightarrow> byte list \<Rightarrow> fused_entry list \<Rightarrow> fused_entry list" where
  "unpack_from cursor src [] = []"
| "unpack_from cursor src (e # es) =
     e\<lparr>output_bytes := take (byteSize e) (drop cursor src)\<rparr>
       # unpack_from (cursor + byteSize e) src es"

text \<open>
  Modelled from the spec: \<open>MemcpyOutFusionBuffer\<close> (not in this file), the
  specification's \<open>unpackFrom\<close>, starting at offset 0 as packing does.
\<close>

definition unpackFrom :: "byte list \<Rightarrow> fused_entry list \<Rightarrow> fused_entry list" where
  "unpackFrom sourceBuffer entries = unpack_from 0 sourceBuffer entries"

section \<open>Broadcast over all ranks\<close>

text \<open>
  The memory of one rank maps the address of a buffer to the bytes it holds.
\<close>

type_synonym memory = "ptr \<Rightarrow> byte list"

text \<open>
  Modelled from the spec: the write that the backend's broadcast (an external library,
  not in this file) makes into a receiving buffer: \<open>new\<close> replaces the start of \<open>old\<close>.
\<close>

definition overwrite :: "byte list \<Rightarrow> byte list \<Rightarrow> byte list" where
  "overwrite old new = new @ drop (length new) old"

text \<open>
  Modelled from the spec: the broadcast of the backend (\<open>gloo::BroadcastOneToAll\<close>,
  an external library): the contents of \<open>buffer\<close> on \<open>rootRank\<close>, \<open>elementCount\<close>
  elements, are copied into \<open>buffer\<close> on every other rank. Each rank comes with its
  memory and the buffer address it passed.
\<close>

definition backend_broadcast ::
  "nat \<Rightarrow> nat \<Rightarrow> nat \<Rightarrow> (memory \<times> ptr) list \<Rightarrow> memory list" where
  "backend_broadcast elem_bytes elementCount rootRank ranks =
     (let (root_mem, root_buffer) = ranks ! rootRank;
          c = take (elementCount * elem_bytes) (root_mem root_buffer)
      in map (\<lambda>(r, mem, buffer).
                if r = rootRank then mem else mem(buffer := overwrite (mem buffer) c))
           (enumerate 0 ranks))"

text \<open>
  The broadcast a rank asked for, when its executor returned \<open>OK\<close>: element type,
  buffer, count, \<open>rootRank\<close> and \<open>rootPointerRank\<close>.
\<close>

type_synonym bcast_args = "CType \<times> ptr \<times> 64 word \<times> int \<times> int"

fun the_broadcast :: "event list \<Rightarrow> bcast_args option" where
  "the_broadcast [BroadcastOneToAll_run T c [buffer] n root rootp] =
     Some (T, buffer, n, root, rootp)"
| "the_broadcast evs = None"

fun broadcast_call :: "outcome \<times> event list \<Rightarrow> bcast_args option" where
  "broadcast_call (Returned OK, log) = the_broadcast (collective_calls log)"
| "broadcast_call (out, log) = None"

fun agrees :: "CType \<Rightarrow> 64 word \<Rightarrow> int \<Rightarrow> int \<Rightarrow> bcast_args option \<Rightarrow> bool" where
  "agrees T n root rootp None = False"
| "agrees T n root rootp (Some (T', buffer, n', root', rootp')) =
     (T' = T \<and> n' = n \<and> root' = root \<and> rootp' = rootp)"

fun buffer_of :: "bcast_args option \<Rightarrow> ptr" where
  "buffer_of None = 0"
| "buffer_of (Some (T, buffer, n, root, rootp)) = buffer"

definition rank_op :: "GlooContext \<Rightarrow> nat \<Rightarrow> nat \<Rightarrow> GlooOp" where
  "rank_op ctx P r =
     \<lparr>op_gloo_context = ctx, op_global_state = \<lparr>rank = int r, world_size = int P\<rparr>\<rparr>"

text \<open>
  Modelled from the spec: the meeting of the ranks in the backend (an external library,
  not in this file), after section 5 of the specification. Every rank runs
  \<open>GlooBroadcast::Execute\<close> on its own batch, with its own memory; rank \<open>r\<close> is the
  \<open>r\<close>-th element of the list. When all of them reach the backend with one element
  type, one count and one root that is a rank, the backend's broadcast takes place;
  otherwise there is no result. The specification's broadcast has no
  \<open>rootPointerRank\<close>; the ranks must agree on it, and it has no further effect here.
\<close>

definition broadcast_on_all_ranks ::
  "bool \<Rightarrow> 'r helpers \<Rightarrow> GlooContext \<Rightarrow> 'r \<Rightarrow> (TensorTableEntry list \<times> memory) list
     \<Rightarrow> memory list option" where
  "broadcast_on_all_ranks NDEBUG hs ctx response ranks =
     (let P = length ranks;
          calls = map (\<lambda>(r, entries, mem).
                     broadcast_call
                       (GlooBroadcast_Execute NDEBUG hs (rank_op ctx P r) entries response))
                    (enumerate 0 ranks)
      in case calls of
           [] \<Rightarrow> None
         | None # cs \<Rightarrow> None
         | Some (T, buffer, n, root, rootp) # cs \<Rightarrow>
             if list_all (agrees T n root rootp) calls \<and> 0 \<le> root \<and> nat root < P
             then Some (backend_broadcast (sizeof T) (unat n) (nat root)
                          (zip (map snd ranks) (map buffer_of calls)))
             else None)"

text \<open>
  The element count that reaches the backend for a tensor of \<open>n\<close> elements: the
  executor converts the 64-bit count to \<open>int\<close> and \<open>Broadcast\<close> converts that to
  \<open>size_t\<close>.
\<close>

definition broadcast_count :: "64 word \<Rightarrow> nat" where
  "broadcast_count n = unat (scast (ucast n :: 32 word) :: 64 word)"

section \<open>Concrete batches\<close>

fun example_DataType_Name :: "DataType \<Rightarrow> string" where
  "example_DataType_Name HOROVOD_INT32 = ''HOROVOD_INT32''"
| "example_DataType_Name HOROVOD_FLOAT64 = ''HOROVOD_FLOAT64''"
| "example_DataType_Name (HOROVOD_OTHER n) = ''HOROVOD_FLOAT16''"
| "example_DataType_Name dt = ''HOROVOD_UINT8''"

definition example_helpers :: "unit helpers" where
  "example_helpers =
     \<lparr>DataType_Name = example_DataType_Name,
      NumElements = (\<lambda>es. sum_list (map (\<lambda>e. shape_num_elements (tensor e)) es)),
      AllocateOutput = (\<lambda>es r. \<lparr>status = OK, outputs = map output_tensor es,
         entry_component_sizes = [], recvcounts = []\<rparr>),
      SetDisplacements = (\<lambda>rc. rc),
      SetEntryComponentOffsets = (\<lambda>es sizes rc. sizes),
      fusion_buffer_data = (\<lambda>es. 1000)\<rparr>"

definition failing_helpers :: "unit helpers" where
  "failing_helpers =
     example_helpers\<lparr>AllocateOutput := (\<lambda>es r. \<lparr>status = Failure ''shape mismatch'',
        outputs = map output_tensor es, entry_component_sizes = [], recvcounts = []\<rparr>)\<rparr>"

definition example_tensor :: "DataType \<Rightarrow> ptr \<Rightarrow> Tensor" where
  "example_tensor dt p = \<lparr>dtype = dt, data = p, tensor_size = 12, shape_num_elements = 3\<rparr>"

definition example_entry :: "DataType \<Rightarrow> ptr \<Rightarrow> ptr \<Rightarrow> int \<Rightarrow> TensorTableEntry" where
  "example_entry dt p q root =
     \<lparr>tensor = example_tensor dt p, output_tensor = example_tensor dt q, root_rank = root\<rparr>"

definition example_op :: "int \<Rightarrow> GlooOp" where
  "example_op r = \<lparr>op_gloo_context = 7, op_global_state = \<lparr>rank = r, world_size = 4\<rparr>\<rparr>"

text \<open>Two tensors on three ranks: tensor 0 has sizes 4, 4, 4 and tensor 1 has 8, 4, 8.\<close>

definition example_sizes :: SizeTable where
  "example_sizes i r = (if i = 0 then 4 else if r = 1 then 4 else 8)"

text \<open>The same shape, with nothing from rank 0 for tensor 1.\<close>

definition zero_example_sizes :: SizeTable where
  "zero_example_sizes i r = (if i = 1 \<and> r = 0 then 0 else 4)"

text \<open>Three tensors of 3, 0 and 2 bytes, and a fusion buffer of 8 bytes.\<close>

definition example_fused :: "fused_entry list" where
  "example_fused =
     [\<lparr>input_bytes = [1, 2, 3], output_bytes = [0, 0, 0]\<rparr>,
      \<lparr>input_bytes = [], output_bytes = []\<rparr>,
      \<lparr>input_bytes = [4, 5], output_bytes = [9, 9]\<rparr>]"

definition example_fusion_buffer :: "byte list" where
  "example_fusion_buffer = [7, 7, 7, 7, 7, 7, 7, 7]"

text \<open>Address 100 holds the input and address 200 the output, on each rank.\<close>

definition example_memory :: "byte list \<Rightarrow> byte list \<Rightarrow> memory" where
  "example_memory inp out p = (if p = 100 then inp else if p = 200 then out else [])"

text \<open>Rank \<open>r\<close> holds twelve bytes \<open>r + 1\<close> as input and twelve zero bytes as output.\<close>

definition example_rank_memory :: "nat \<Rightarrow> memory" where
  "example_rank_memory r = example_memory (replicate 12 (of_nat (r + 1))) (replicate 12 0)"

text \<open>
  A tensor of \<open>2 ^ 32\<close> bytes, with root rank 1; rank \<open>r\<close> holds \<open>2 ^ 32\<close> bytes
  \<open>r + 1\<close> as input and as many zero bytes as output.
\<close>

definition big_entry :: TensorTableEntry where
  "big_entry =
     \<lparr>tensor = \<lparr>dtype = HOROVOD_UINT8, data = 100, tensor_size = 4294967296,
                 shape_num_elements = 4294967296\<rparr>,
      output_tensor = \<lparr>dtype = HOROVOD_UINT8, data = 200, tensor_size = 4294967296,
                 shape_num_elements = 4294967296\<rparr>,
      root_rank = 1\<rparr>"

definition big_rank_memory :: "nat \<Rightarrow> memory" where
  "big_rank_memory r =
     example_memory (replicate 4294967296 (of_nat (r + 1))) (replicate 4294967296 0)"

section \<open>Properties of the dispatcher\<close>

lemma GetAlgorithmsForType_supported:
  "spec_native_width dt = Some w \<Longrightarrow>
   \<exists>h. GetAlgorithmsForType nm dt ctx = Inr h \<and> ElementSize h = int w
     \<and> sizeof (elem_type h) = w \<and> gloo_context_m h = ctx"
  by (cases dt) (auto simp: new_GlooAlgorithms_def ElementSize_def)

lemma GetAlgorithmsForType_unsupported:
  "spec_native_width dt = None \<Longrightarrow>
   GetAlgorithmsForType nm dt ctx =
     Inl (logic_error (''Type '' @ nm dt @ '' is not supported in Gloo mode.''))"
  by (cases dt) auto


section \<open>What the executors call and how they end\<close>

lemma tensor_set_outputs_hd:
  "set_outputs (first # rest) ts = e # es \<Longrightarrow> tensor e = tensor first"
  by (cases ts) auto

lemma set_outputs_eq_Nil: "(set_outputs es ts = []) = (es = [])"
  by (cases es; cases ts) auto

lemma length_set_outputs: "length (set_outputs es ts) = length es"
  by (induction es ts rule: set_outputs.induct) auto

lemma allreduce_calls:
  "collective_calls (snd (GlooAllreduce_Execute hs this (first # rest) resp)) =
     (case GetAlgorithmsForType (DataType_Name hs) (dtype (tensor first))
             (op_gloo_context this) of
        Inl e \<Rightarrow> []
      | Inr h \<Rightarrow>
          [AllreduceRing_run (elem_type h) (gloo_context_m h)
             [if rest = [] then data (output_tensor first)
              else fusion_buffer_data hs (first # rest)]
             (ucast (NumElements hs (first # rest)))])"
  by (simp add: GlooAllreduce_Execute_def Let_def collective_calls_def Allreduce_def
      split: sum.splits)

lemma allreduce_outcome:
  "fst (GlooAllreduce_Execute hs this (first # rest) resp) =
     (case GetAlgorithmsForType (DataType_Name hs) (dtype (tensor first))
             (op_gloo_context this) of
        Inl e \<Rightarrow> Thrown e
      | Inr h \<Rightarrow> Returned OK)"
  by (simp add: GlooAllreduce_Execute_def Let_def split: sum.splits)

lemma allgather_calls:
  "collective_calls (snd (GlooAllgather_Execute hs this (first # rest) resp)) =
     (if ok (status (AllocateOutput hs (first # rest) resp)) then
        (case GetAlgorithmsForType (DataType_Name hs) (dtype (tensor first))
                (op_gloo_context this) of
           Inl e \<Rightarrow> []
         | Inr h \<Rightarrow>
             (let allocated =
                    set_outputs (first # rest)
                      (outputs (AllocateOutput hs (first # rest) resp));
                  buffer =
                    (if rest = [] then data (output_tensor (hd allocated))
                     else fusion_buffer_data hs allocated)
              in [AllgatherRing_run (elem_type h) (gloo_context_m h) [buffer] buffer
                    (ucast (NumElements hs allocated))]))
      else [])"
proof (cases "set_outputs (first # rest) (outputs (AllocateOutput hs (first # rest) resp))")
  case Nil
  then show ?thesis by (simp add: set_outputs_eq_Nil)
next
  case (Cons e es)
  have t: "tensor e = tensor first"
    using Cons by (rule tensor_set_outputs_hd)
  have l: "length es = length rest"
    using length_set_outputs [of "first # rest"
        "outputs (AllocateOutput hs (first # rest) resp)"] Cons
    by simp
  show ?thesis
    using Cons t l
    by (simp add: GlooAllgather_Execute_def Let_def collective_calls_def Allgather_def
        split: sum.splits)
qed

lemma allgather_outcome:
  "fst (GlooAllgather_Execute hs this (first # rest) resp) =
     (if ok (status (AllocateOutput hs (first # rest) resp)) then
        (case GetAlgorithmsForType (DataType_Name hs) (dtype (tensor first))
                (op_gloo_context this) of
           Inl e \<Rightarrow> Thrown e
         | Inr h \<Rightarrow> Returned OK)
      else Returned (status (AllocateOutput hs (first # rest) resp)))"
proof (cases "set_outputs (first # rest) (outputs (AllocateOutput hs (first # rest) resp))")
  case Nil
  then show ?thesis by (simp add: set_outputs_eq_Nil)
next
  case (Cons e es)
  have t: "tensor e = tensor first"
    using Cons by (rule tensor_set_outputs_hd)
  show ?thesis
    using Cons t by (simp add: GlooAllgather_Execute_def Let_def split: sum.splits)
qed

lemma allgather_log_failure:
  assumes "\<not> ok (status (AllocateOutput hs (first # rest) resp))"
  shows "snd (GlooAllgather_Execute hs this (first # rest) resp) =
     [ActivityStartAll (first # rest) ALLOCATE_OUTPUT, AllocateOutput_call (first # rest)]"
proof (cases "set_outputs (first # rest) (outputs (AllocateOutput hs (first # rest) resp))")
  case Nil
  then show ?thesis by (simp add: set_outputs_eq_Nil)
next
  case (Cons e es)
  with assms show ?thesis
    by (simp add: GlooAllgather_Execute_def Let_def)
qed

lemma broadcast_calls:
  "collective_calls (snd (GlooBroadcast_Execute nd hs this (first # rest) resp)) =
     (if nd \<or> rest = [] then
        (case GetAlgorithmsForType (DataType_Name hs) (dtype (tensor first))
                (op_gloo_context this) of
           Inl e \<Rightarrow> []
         | Inr h \<Rightarrow>
             [BroadcastOneToAll_run (elem_type h) (gloo_context_m h)
                [if rank (op_global_state this) = root_rank first then data (tensor first)
                 else data (output_tensor first)]
                (scast (ucast (shape_num_elements (tensor first)) :: 32 word))
                (root_rank first) (root_rank first)])
      else [])"
  by (simp add: GlooBroadcast_Execute_def Let_def collective_calls_def Broadcast_def
      split: sum.splits)

lemma broadcast_outcome:
  "fst (GlooBroadcast_Execute nd hs this (first # rest) resp) =
     (if nd \<or> rest = [] then
        (case GetAlgorithmsForType (DataType_Name hs) (dtype (tensor first))
                (op_gloo_context this) of
           Inl e \<Rightarrow> Thrown e
         | Inr h \<Rightarrow> Returned OK)
      else AssertionFailed ''entries.size() == 1'')"
  by (simp add: GlooBroadcast_Execute_def Let_def split: sum.splits)

text \<open>A run that returns \<open>OK\<close> has notified the timeline in matched pairs.\<close>

lemma allreduce_ok_matched:
  "fst (GlooAllreduce_Execute hs this entries resp) = Returned OK \<Longrightarrow>
   matched False (snd (GlooAllreduce_Execute hs this entries resp))"
  by (cases entries)
    (auto simp: GlooAllreduce_Execute_def Let_def Allreduce_def split_beta
      split: sum.splits if_splits)

lemma broadcast_ok_matched:
  "fst (GlooBroadcast_Execute nd hs this entries resp) = Returned OK \<Longrightarrow>
   matched False (snd (GlooBroadcast_Execute nd hs this entries resp))"
  by (cases entries)
    (auto simp: GlooBroadcast_Execute_def Let_def Broadcast_def split: sum.splits if_splits)

lemma allgather_ok_matched:
  "fst (GlooAllgather_Execute hs this entries resp) = Returned OK \<Longrightarrow>
   matched False (snd (GlooAllgather_Execute hs this entries resp))"
  by (cases "set_outputs entries (outputs (AllocateOutput hs entries resp))")
    (auto simp: GlooAllgather_Execute_def Let_def Allgather_def split_beta
      split: sum.splits if_splits)

lemmas example_defs =
  example_helpers_def failing_helpers_def example_tensor_def example_entry_def
  example_op_def

section \<open>Claims about the dispatcher and the executors\<close>

text \<open>
  Claim C1. For every data type of the supported set, \<open>GetAlgorithmsForType\<close> returns
  an algorithm object whose \<open>ElementSize()\<close> is the native byte width of the type (1
  for the 8-bit integers and the boolean, 2 for the 16-bit integers, 4 for the 32-bit
  types, 8 for the 64-bit types), which is also the \<open>sizeof\<close> of the template
  argument. For any other type it throws the error that names the type; an executor
  whose first entry has such a type does not return \<open>OK\<close> and starts no collective
  communication (for the broadcast executor, with or without \<open>NDEBUG\<close>).
\<close>

theorem GetAlgorithmsForType_element_size:
  "case spec_native_width dt of
     Some w \<Rightarrow>
       (\<exists>h. GetAlgorithmsForType (DataType_Name hs) dt ctx = Inr h
          \<and> ElementSize h = int w \<and> int (sizeof (elem_type h)) = ElementSize h)
   | None \<Rightarrow>
       GetAlgorithmsForType (DataType_Name hs) dt ctx =
         Inl (logic_error (''Type '' @ DataType_Name hs dt @ '' is not supported in Gloo mode.''))
       \<and> (\<forall>first rest this resp nd. dtype (tensor first) = dt \<longrightarrow>
             fst (GlooAllreduce_Execute hs this (first # rest) resp) =
               Thrown (logic_error
                 (''Type '' @ DataType_Name hs dt @ '' is not supported in Gloo mode.''))
           \<and> collective_calls (snd (GlooAllreduce_Execute hs this (first # rest) resp)) = []
           \<and> fst (GlooAllgather_Execute hs this (first # rest) resp) \<noteq> Returned OK
           \<and> collective_calls (snd (GlooAllgather_Execute hs this (first # rest) resp)) = []
           \<and> fst (GlooBroadcast_Execute nd hs this (first # rest) resp) \<noteq> Returned OK
           \<and> collective_calls (snd (GlooBroadcast_Execute nd hs this (first # rest) resp))
               = [])"
proof (cases "spec_native_width dt")
  case (Some w)
  then show ?thesis
    using GetAlgorithmsForType_supported [OF Some, of "DataType_Name hs" ctx] by auto
next
  case None
  have u: "GetAlgorithmsForType (DataType_Name hs) dt c =
      Inl (logic_error (''Type '' @ DataType_Name hs dt @ '' is not supported in Gloo mode.''))"
    for c
    using None by (rule GetAlgorithmsForType_unsupported)
  show ?thesis
    using None u
    by (auto simp: allreduce_calls allgather_calls broadcast_calls allreduce_outcome
        allgather_outcome broadcast_outcome)
qed

theorem GetAlgorithmsForType_element_size_witness:
  "(\<exists>h. GetAlgorithmsForType example_DataType_Name HOROVOD_FLOAT64 7 = Inr h
      \<and> ElementSize h = 8 \<and> int (sizeof (elem_type h)) = ElementSize h)
   \<and> GetAlgorithmsForType example_DataType_Name (HOROVOD_OTHER 6) 7 =
       Inl (logic_error ''Type HOROVOD_FLOAT16 is not supported in Gloo mode.'')
   \<and> dtype (tensor (example_entry (HOROVOD_OTHER 6) 100 200 0)) = HOROVOD_OTHER 6
   \<and> fst (GlooAllreduce_Execute example_helpers (example_op 0)
        [example_entry (HOROVOD_OTHER 6) 100 200 0] ()) =
       Thrown (logic_error ''Type HOROVOD_FLOAT16 is not supported in Gloo mode.'')
   \<and> collective_calls (snd (GlooAllreduce_Execute example_helpers (example_op 0)
        [example_entry (HOROVOD_OTHER 6) 100 200 0] ())) = []"
proof -
  have d: "dtype (tensor (example_entry (HOROVOD_OTHER 6) 100 200 0)) = HOROVOD_OTHER 6"
    by (simp add: example_defs)
  have n: "DataType_Name example_helpers = example_DataType_Name"
    by (simp add: example_defs)
  show ?thesis
    using GetAlgorithmsForType_element_size
        [where dt = HOROVOD_FLOAT64 and hs = example_helpers and ctx = 7]
      GetAlgorithmsForType_element_size
        [where dt = "HOROVOD_OTHER 6" and hs = example_helpers and ctx = 7] d n
    by simp
qed

text \<open>
  Claim C4. When \<open>AllocateOutput\<close> returns a status that is not ok,
  \<open>GlooAllgather::Execute\<close> returns that very status, and its log stops after the call of
  \<open>AllocateOutput\<close>: the gather algorithm is never invoked.
\<close>

theorem GlooAllgather_allocation_failure:
  assumes "entries \<noteq> []"
    and "\<not> ok (status (AllocateOutput hs entries resp))"
  shows "GlooAllgather_Execute hs this entries resp =
      (Returned (status (AllocateOutput hs entries resp)),
       [ActivityStartAll entries ALLOCATE_OUTPUT, AllocateOutput_call entries])
    \<and> collective_calls (snd (GlooAllgather_Execute hs this entries resp)) = []"
proof -
  obtain first rest where e: "entries = first # rest"
    using assms(1) by (cases entries) auto
  show ?thesis
    using assms(2) unfolding e
    by (simp add: prod_eq_iff allgather_outcome allgather_log_failure collective_calls_def)
qed

theorem GlooAllgather_allocation_failure_witness:
  "[example_entry HOROVOD_INT32 100 200 0, example_entry HOROVOD_INT32 300 400 0] \<noteq> []
   \<and> \<not> ok (status (AllocateOutput failing_helpers
        [example_entry HOROVOD_INT32 100 200 0, example_entry HOROVOD_INT32 300 400 0] ()))
   \<and> fst (GlooAllgather_Execute failing_helpers (example_op 0)
        [example_entry HOROVOD_INT32 100 200 0, example_entry HOROVOD_INT32 300 400 0] ()) =
       Returned (Failure ''shape mismatch'')
   \<and> collective_calls (snd (GlooAllgather_Execute failing_helpers (example_op 0)
        [example_entry HOROVOD_INT32 100 200 0, example_entry HOROVOD_INT32 300 400 0] ()))
       = []"
proof -
  have s: "status (AllocateOutput failing_helpers es ()) = Failure ''shape mismatch''" for es
    by (simp add: example_defs)
  have n: "[example_entry HOROVOD_INT32 100 200 0, example_entry HOROVOD_INT32 300 400 0] \<noteq> []"
    by simp
  have f: "\<not> ok (status (AllocateOutput failing_helpers
        [example_entry HOROVOD_INT32 100 200 0, example_entry HOROVOD_INT32 300 400 0] ()))"
    by (simp add: s)
  show ?thesis
    using GlooAllgather_allocation_failure [OF n f, of "example_op 0"] s
    by (simp add: collective_calls_def)
qed

text \<open>
  Compiled with \<open>NDEBUG\<close>, \<open>GlooBroadcast::Execute\<close> has no check of the batch size: on
  a batch of two entries it broadcasts the first entry through the backend and returns
  \<open>OK\<close>.
\<close>

theorem GlooBroadcast_two_entries_with_NDEBUG:
  "fst (GlooBroadcast_Execute True example_helpers (example_op 0)
       [example_entry HOROVOD_INT32 100 200 0, example_entry HOROVOD_INT32 300 400 0] ()) =
     Returned OK
   \<and> collective_calls (snd (GlooBroadcast_Execute True example_helpers (example_op 0)
       [example_entry HOROVOD_INT32 100 200 0, example_entry HOROVOD_INT32 300 400 0] ())) =
     [BroadcastOneToAll_run int32_t 7 [100] 3 0 0]"
  by (simp add: broadcast_outcome broadcast_calls example_defs new_GlooAlgorithms_def)

text \<open>
  Claim C5, amended. Compiled without \<open>NDEBUG\<close>, \<open>GlooBroadcast::Execute\<close> on a batch
  of more than one entry fails at its assertion \<open>entries.size() == 1\<close> (the process
  aborts; no status is returned) before anything else: its log is empty, so neither
  the timeline nor the backend has been called.
\<close>

theorem GlooBroadcast_assert_more_than_one_entry:
  assumes "length entries > 1"
    and "\<not> NDEBUG"
  shows "GlooBroadcast_Execute NDEBUG hs this entries resp =
      (AssertionFailed ''entries.size() == 1'', [])
    \<and> collective_calls (snd (GlooBroadcast_Execute NDEBUG hs this entries resp)) = []"
  using assms by (simp add: GlooBroadcast_Execute_def collective_calls_def)

theorem GlooBroadcast_assert_more_than_one_entry_witness:
  "length [example_entry HOROVOD_INT32 100 200 0, example_entry HOROVOD_INT32 300 400 0] > 1
   \<and> \<not> False
   \<and> GlooBroadcast_Execute False example_helpers (example_op 0)
       [example_entry HOROVOD_INT32 100 200 0, example_entry HOROVOD_INT32 300 400 0] () =
     (AssertionFailed ''entries.size() == 1'', [])"
proof -
  have l: "length [example_entry HOROVOD_INT32 100 200 0,
      example_entry HOROVOD_INT32 300 400 0] > 1"
    by simp
  have n: "\<not> False"
    by simp
  show ?thesis
    using GlooBroadcast_assert_more_than_one_entry
      [OF l n, of example_helpers "example_op 0" "()"] l
    by simp
qed

text \<open>
  Claim C6. On a batch of one tensor, the input buffer that \<open>GlooAllgather::Execute\<close>
  hands to the gather algorithm is \<open>buffer_data\<close>, the data of the entry's output
  tensor, which is also the output buffer; \<open>sendbuf\<close>, the data of the input tensor, is
  not passed. Here the input tensor is at address 100 and the output at address 200.
\<close>

theorem GlooAllgather_single_entry_gathers_from_output:
  "collective_calls (snd (GlooAllgather_Execute example_helpers (example_op 0)
      [example_entry HOROVOD_INT32 100 200 0] ())) =
     [AllgatherRing_run int32_t 7 [200] 200 3]
   \<and> data (tensor (example_entry HOROVOD_INT32 100 200 0)) = 100
   \<and> data (output_tensor (example_entry HOROVOD_INT32 100 200 0)) = 200"
  by (simp add: allgather_calls example_defs new_GlooAlgorithms_def)

text \<open>
  Claim C8. When \<open>AllocateOutput\<close> fails, \<open>GlooAllgather::Execute\<close> returns the failure
  status after \<open>ActivityStartAll(entries, ALLOCATE_OUTPUT)\<close> and before the
  \<open>ActivityEndAll\<close> that follows on the other path: the phase notifications of that
  run are not matched.
\<close>

theorem GlooAllgather_failure_leaves_phase_open:
  "GlooAllgather_Execute failing_helpers (example_op 0)
      [example_entry HOROVOD_INT32 100 200 0] () =
     (Returned (Failure ''shape mismatch''),
      [ActivityStartAll [example_entry HOROVOD_INT32 100 200 0] ALLOCATE_OUTPUT,
       AllocateOutput_call [example_entry HOROVOD_INT32 100 200 0]])
   \<and> \<not> matched False (snd (GlooAllgather_Execute failing_helpers (example_op 0)
      [example_entry HOROVOD_INT32 100 200 0] ()))"
  by (simp add: prod_eq_iff allgather_outcome allgather_log_failure example_defs)

lemma algorithms_run_collective:
  "algorithms_run log = concat (map algorithm_of (collective_calls log))"
  unfolding algorithms_run_def collective_calls_def
proof (induction log)
  case Nil
  then show ?case by simp
next
  case (Cons ev log)
  then show ?case by (cases ev) simp_all
qed

text \<open>
  Claim C10. In \<open>GlooAllreduce::Execute\<close> and \<open>GlooAllgather::Execute\<close> the algorithm
  that runs is the one \<open>GetAlgorithmsForType\<close> gives for the data type of the first
  entry's tensor, and in both it is applied once, to the whole buffer (the fusion
  buffer when the batch has several entries) with the element count of the whole batch
  (for all-gather, of the batch as \<open>AllocateOutput\<close> left it). Replacing the entries
  after the first by any others leaves the algorithm that runs the same.
\<close>

theorem algorithm_resolved_from_first_entry:
  "collective_calls (snd (GlooAllreduce_Execute hs this (first # rest) resp)) =
     (case GetAlgorithmsForType (DataType_Name hs) (dtype (tensor first))
             (op_gloo_context this) of
        Inl e \<Rightarrow> []
      | Inr h \<Rightarrow>
          [AllreduceRing_run (elem_type h) (gloo_context_m h)
             [if rest = [] then data (output_tensor first)
              else fusion_buffer_data hs (first # rest)]
             (ucast (NumElements hs (first # rest)))])
   \<and> collective_calls (snd (GlooAllgather_Execute hs this (first # rest) resp)) =
     (if ok (status (AllocateOutput hs (first # rest) resp)) then
        (case GetAlgorithmsForType (DataType_Name hs) (dtype (tensor first))
                (op_gloo_context this) of
           Inl e \<Rightarrow> []
         | Inr h \<Rightarrow>
             (let allocated =
                    set_outputs (first # rest)
                      (outputs (AllocateOutput hs (first # rest) resp));
                  buffer =
                    (if rest = [] then data (output_tensor (hd allocated))
                     else fusion_buffer_data hs allocated)
              in [AllgatherRing_run (elem_type h) (gloo_context_m h) [buffer] buffer
                    (ucast (NumElements hs allocated))]))
      else [])
   \<and> algorithms_run (snd (GlooAllreduce_Execute hs this (first # rest) resp)) =
     (case GetAlgorithmsForType (DataType_Name hs) (dtype (tensor first))
             (op_gloo_context this) of
        Inl e \<Rightarrow> []
      | Inr h \<Rightarrow> [elem_type h])
   \<and> algorithms_run (snd (GlooAllgather_Execute hs this (first # rest) resp)) =
     (if ok (status (AllocateOutput hs (first # rest) resp)) then
        (case GetAlgorithmsForType (DataType_Name hs) (dtype (tensor first))
             (op_gloo_context this) of
          Inl e \<Rightarrow> []
        | Inr h \<Rightarrow> [elem_type h])
      else [])
   \<and> (\<forall>rest'. algorithms_run (snd (GlooAllreduce_Execute hs this (first # rest') resp)) =
         algorithms_run (snd (GlooAllreduce_Execute hs this (first # rest) resp)))
   \<and> (\<forall>rest'. ok (status (AllocateOutput hs (first # rest) resp))
         \<and> ok (status (AllocateOutput hs (first # rest') resp)) \<longrightarrow>
         algorithms_run (snd (GlooAllgather_Execute hs this (first # rest') resp)) =
         algorithms_run (snd (GlooAllgather_Execute hs this (first # rest) resp)))"
  by (simp add: algorithms_run_collective allreduce_calls allgather_calls Let_def split: sum.splits)

theorem algorithm_resolved_from_first_entry_witness:
  "ok (status (AllocateOutput example_helpers
       [example_entry HOROVOD_INT32 100 200 0, example_entry HOROVOD_FLOAT64 300 400 0] ()))
   \<and> ok (status (AllocateOutput example_helpers
       [example_entry HOROVOD_INT32 100 200 0, example_entry HOROVOD_UINT8 300 400 0] ()))
   \<and> algorithms_run (snd (GlooAllgather_Execute example_helpers (example_op 0)
       [example_entry HOROVOD_INT32 100 200 0, example_entry HOROVOD_FLOAT64 300 400 0] ())) =
     [int32_t]
   \<and> algorithms_run (snd (GlooAllgather_Execute example_helpers (example_op 0)
       [example_entry HOROVOD_INT32 100 200 0, example_entry HOROVOD_UINT8 300 400 0] ())) =
     [int32_t]
   \<and> algorithms_run (snd (GlooAllreduce_Execute example_helpers (example_op 0)
       [example_entry HOROVOD_INT32 100 200 0, example_entry HOROVOD_FLOAT64 300 400 0] ())) =
     [int32_t]
   \<and> collective_calls (snd (GlooAllgather_Execute example_helpers (example_op 0)
       [example_entry HOROVOD_INT32 100 200 0, example_entry HOROVOD_FLOAT64 300 400 0] ())) =
     [AllgatherRing_run int32_t 7 [1000] 1000 6]
   \<and> collective_calls (snd (GlooAllreduce_Execute example_helpers (example_op 0)
       [example_entry HOROVOD_INT32 100 200 0, example_entry HOROVOD_FLOAT64 300 400 0] ())) =
     [AllreduceRing_run int32_t 7 [1000] 6]"
proof -
  have a: "ok (status (AllocateOutput example_helpers es ()))" for es
    by (simp add: example_defs)
  have d: "dtype (tensor (example_entry HOROVOD_INT32 100 200 0)) = HOROVOD_INT32"
    by (simp add: example_defs)
  have n: "DataType_Name example_helpers = example_DataType_Name"
    by (simp add: example_defs)
  note t = algorithm_resolved_from_first_entry
      [where hs = example_helpers and this = "example_op 0"
         and first = "example_entry HOROVOD_INT32 100 200 0"
         and rest = "[example_entry HOROVOD_FLOAT64 300 400 0]" and resp = "()"]
  have same: "algorithms_run (snd (GlooAllgather_Execute example_helpers (example_op 0)
       [example_entry HOROVOD_INT32 100 200 0, example_entry HOROVOD_UINT8 300 400 0] ())) =
     algorithms_run (snd (GlooAllgather_Execute example_helpers (example_op 0)
       [example_entry HOROVOD_INT32 100 200 0, example_entry HOROVOD_FLOAT64 300 400 0] ()))"
    using t a by blast
  have v: "op_gloo_context (example_op 0) = 7"
    "fusion_buffer_data example_helpers es = 1000"
    "set_outputs
       [example_entry HOROVOD_INT32 100 200 0, example_entry HOROVOD_FLOAT64 300 400 0]
       (outputs (AllocateOutput example_helpers
          [example_entry HOROVOD_INT32 100 200 0, example_entry HOROVOD_FLOAT64 300 400 0]
          ())) =
     [example_entry HOROVOD_INT32 100 200 0, example_entry HOROVOD_FLOAT64 300 400 0]"
    "ucast (NumElements example_helpers
       [example_entry HOROVOD_INT32 100 200 0, example_entry HOROVOD_FLOAT64 300 400 0]) =
     (6 :: 32 word)"
    for es
    by (simp_all add: example_defs)
  show ?thesis
    using t a d n same by (simp add: new_GlooAlgorithms_def Let_def v)
qed

section \<open>Claims about the all-gather planner\<close>

lemma totalSize_sum: "totalSize N sizes r = (\<Sum>i<N. sizes i r)"
  by (simp add: totalSize_def sum_list_sum_nth lessThan_atLeast0 atLeast_upt [symmetric]) 

lemma length_exclusive_prefix_sum: "length (exclusive_prefix_sum acc ts) = length ts"
  by (induction ts arbitrary: acc) auto

lemma nth_exclusive_prefix_sum:
  "r < length ts \<Longrightarrow> exclusive_prefix_sum acc ts ! r = acc + sum_list (take r ts)"
proof (induction ts arbitrary: acc r)
  case Nil
  then show ?case by simp
next
  case (Cons t ts)
  then show ?case by (cases r) auto
qed

lemma length_computeDisplacements: "length (computeDisplacements N P sizes) = P"
  by (simp add: computeDisplacements_def length_exclusive_prefix_sum)

lemma nth_computeDisplacements:
  assumes "r < P"
  shows "computeDisplacements N P sizes ! r = (\<Sum>q<r. totalSize N sizes q)"
proof -
  have "take r (map (totalSize N sizes) [0..<P]) = map (totalSize N sizes) [0..<r]"
    using assms by (simp add: take_map)
  then show ?thesis
    using assms
    by (simp add: computeDisplacements_def nth_exclusive_prefix_sum sum_list_sum_nth
        lessThan_atLeast0 atLeast_upt [symmetric] del: upt_Suc)
qed

lemma length_offset_rows: "length (offset_rows sizes i k cur) = k"
  by (induction k arbitrary: i cur) auto

lemma nth_offset_rows:
  "m < k \<Longrightarrow> r < length cur \<Longrightarrow>
   offset_rows sizes i k cur ! m ! r = cur ! r + (\<Sum>j = i..<i + m. sizes j r)"
proof (induction k arbitrary: i cur m)
  case 0
  then show ?case by simp
next
  case (Suc k)
  show ?case
  proof (cases m)
    case 0
    then show ?thesis by simp
  next
    case (Suc m')
    let ?next = "map (\<lambda>(r, c). c + sizes i r) (enumerate 0 cur)"
    have m': "m' < k" using Suc.prems(1) Suc by simp
    have len: "r < length ?next" using Suc.prems(2) by simp
    have step: "?next ! r = cur ! r + sizes i r"
      using Suc.prems(2) by (simp add: nth_enumerate_eq)
    have "offset_rows sizes i (Suc k) cur ! m ! r = offset_rows sizes (Suc i) k ?next ! m' ! r"
      using Suc by simp
    also have "\<dots> = ?next ! r + (\<Sum>j = Suc i..<Suc i + m'. sizes j r)"
      using Suc.IH [OF m' len] .
    also have "\<dots> = cur ! r + (\<Sum>j = i..<i + m. sizes j r)"
      using Suc step by (simp add: sum.atLeast_Suc_lessThan)
    finally show ?thesis .
  qed
qed


lemma nth_computeOffsets:
  assumes "i < N" and "r < length displacement"
  shows "computeOffsets N sizes displacement ! i ! r = displacement ! r + (\<Sum>j<i. sizes j r)"
  using nth_offset_rows [OF assms, of sizes 0]
  by (simp add: computeOffsets_def lessThan_atLeast0)

lemma example_displacements: "computeDisplacements 2 3 example_sizes = [0, 12, 20]"
  by code_simp

lemma example_offsets:
  "computeOffsets 2 example_sizes (computeDisplacements 2 3 example_sizes) =
     [[0, 12, 20], [4, 16, 24]]"
  by code_simp

text \<open>
  Claim C2. For \<open>N\<close> tensors and \<open>P\<close> ranks, the entry of the offset table for
  tensor \<open>i\<close> and rank \<open>r\<close> is the displacement of rank \<open>r\<close> plus the sizes, for
  that rank, of the tensors before \<open>i\<close>. With two tensors on three ranks, of sizes
  4, 4, 4 and 8, 4, 8, the displacements are 0, 12, 20 and the offset of tensor 1 for
  rank 2 is 24.
\<close>

theorem computeOffsets_formula:
  "(\<forall>i<N. \<forall>r<P.
      computeOffsets N sizes (computeDisplacements N P sizes) ! i ! r =
        computeDisplacements N P sizes ! r + (\<Sum>j<i. sizes j r))
   \<and> computeDisplacements 2 3 example_sizes = [0, 12, 20]
   \<and> computeOffsets 2 example_sizes (computeDisplacements 2 3 example_sizes) ! 1 ! 2 = 24"
proof (intro conjI allI impI)
  fix i r
  assume "i < N" and "r < P"
  then show "computeOffsets N sizes (computeDisplacements N P sizes) ! i ! r =
      computeDisplacements N P sizes ! r + (\<Sum>j<i. sizes j r)"
    by (simp add: nth_computeOffsets length_computeDisplacements)
next
  show "computeDisplacements 2 3 example_sizes = [0, 12, 20]"
    by (rule example_displacements)
next
  show "computeOffsets 2 example_sizes (computeDisplacements 2 3 example_sizes) ! 1 ! 2 = 24"
    unfolding example_offsets by simp
qed

theorem computeOffsets_formula_witness:
  "(1::nat) < 2 \<and> (1::nat) < 3
   \<and> computeOffsets 2 example_sizes (computeDisplacements 2 3 example_sizes) ! 1 ! 1 =
       computeDisplacements 2 3 example_sizes ! 1 + (\<Sum>j<1. example_sizes j 1)
   \<and> computeDisplacements 2 3 example_sizes ! 1 + (\<Sum>j<1. example_sizes j 1) = 16"
proof -
  have g: "\<forall>i<2. \<forall>r<3.
      computeOffsets 2 example_sizes (computeDisplacements 2 3 example_sizes) ! i ! r =
        computeDisplacements 2 3 example_sizes ! r + (\<Sum>j<i. example_sizes j r)"
    using computeOffsets_formula [of 2 3 example_sizes] by (rule conjunct1)
  have v: "computeDisplacements 2 3 example_sizes ! 1 + (\<Sum>j<1. example_sizes j 1) = 16"
    unfolding example_displacements by (simp add: example_sizes_def)
  show ?thesis
    using g [rule_format, of 1 1] v by simp
qed

lemma sum_omit_zero:
  fixes f :: "nat \<Rightarrow> nat"
  assumes "i < N" and "f i = 0"
  shows "sum f ({..<N} - {i}) = sum f {..<N}"
  using assms by (simp add: sum_diff1_nat)

text \<open>
  Claim C3. The displacement table has one entry per rank; the entry of rank 0 is 0 and
  the entry of each later rank is the entry of the rank before it plus that rank's
  total, the total of a rank being the sum of its sizes over all tensors. A size of zero
  is no error and moves nothing: every displacement equals the sum, over the lower
  ranks, of the sizes with the zero entry left out.
\<close>

theorem computeDisplacements_prefix_sum:
  "length (computeDisplacements N P sizes) = P
   \<and> (0 < P \<longrightarrow> computeDisplacements N P sizes ! 0 = 0)
   \<and> (\<forall>r. 0 < r \<and> r < P \<longrightarrow>
         computeDisplacements N P sizes ! r =
           computeDisplacements N P sizes ! (r - 1) + totalSize N sizes (r - 1))
   \<and> (\<forall>r. totalSize N sizes r = (\<Sum>i<N. sizes i r))
   \<and> (\<forall>i r r'. i < N \<and> sizes i r = 0 \<and> r' < P \<longrightarrow>
         computeDisplacements N P sizes ! r' =
           (\<Sum>q<r'. \<Sum>j\<in>{..<N} - (if q = r then {i} else {}). sizes j q))"
proof (intro conjI allI impI)
  show "length (computeDisplacements N P sizes) = P"
    by (rule length_computeDisplacements)
next
  assume "0 < P"
  then show "computeDisplacements N P sizes ! 0 = 0"
    by (simp add: nth_computeDisplacements)
next
  fix r
  assume r: "0 < r \<and> r < P"
  then obtain r' where r': "r = Suc r'"
    by (cases r) auto
  show "computeDisplacements N P sizes ! r =
      computeDisplacements N P sizes ! (r - 1) + totalSize N sizes (r - 1)"
    using r unfolding r' by (simp add: nth_computeDisplacements)
next
  fix r
  show "totalSize N sizes r = (\<Sum>i<N. sizes i r)"
    by (rule totalSize_sum)
next
  fix i r r'
  assume a: "i < N \<and> sizes i r = 0 \<and> r' < P"
  have "(\<Sum>j\<in>{..<N} - (if q = r then {i} else {}). sizes j q) = totalSize N sizes q" for q
    using a sum_omit_zero [of i N "\<lambda>j. sizes j r"] by (simp add: totalSize_sum)
  then show "computeDisplacements N P sizes ! r' =
      (\<Sum>q<r'. \<Sum>j\<in>{..<N} - (if q = r then {i} else {}). sizes j q)"
    using a by (simp add: nth_computeDisplacements)
qed

lemma zero_example_displacements: "computeDisplacements 2 3 zero_example_sizes = [0, 4, 12]"
  by code_simp

theorem computeDisplacements_prefix_sum_witness:
  "(0::nat) < 3 \<and> computeDisplacements 2 3 zero_example_sizes ! 0 = 0
   \<and> ((0::nat) < 1 \<and> (1::nat) < 3)
   \<and> computeDisplacements 2 3 zero_example_sizes ! 1 =
       computeDisplacements 2 3 zero_example_sizes ! (1 - 1)
         + totalSize 2 zero_example_sizes (1 - 1)
   \<and> ((1::nat) < 2 \<and> zero_example_sizes 1 0 = 0 \<and> (2::nat) < 3)
   \<and> computeDisplacements 2 3 zero_example_sizes ! 2 =
       (\<Sum>q<2. \<Sum>j\<in>{..<2} - (if q = 0 then {1} else {}). zero_example_sizes j q)
   \<and> computeDisplacements 2 3 zero_example_sizes = [0, 4, 12]"
proof -
  have z: "zero_example_sizes 1 0 = 0"
    by (simp add: zero_example_sizes_def)
  note t = computeDisplacements_prefix_sum [of 2 3 zero_example_sizes]
  have zero: "computeDisplacements 2 3 zero_example_sizes ! 0 = 0"
    using t [THEN conjunct2, THEN conjunct1] by simp
  have one: "computeDisplacements 2 3 zero_example_sizes ! 1 =
       computeDisplacements 2 3 zero_example_sizes ! (1 - 1)
         + totalSize 2 zero_example_sizes (1 - 1)"
    using t [THEN conjunct2, THEN conjunct2, THEN conjunct1, rule_format, of 1] by simp
  have two: "computeDisplacements 2 3 zero_example_sizes ! 2 =
       (\<Sum>q<2. \<Sum>j\<in>{..<2} - (if q = 0 then {1} else {}). zero_example_sizes j q)"
    using t [THEN conjunct2, THEN conjunct2, THEN conjunct2, THEN conjunct2, rule_format,
        of 1 0 2] z
    by simp
  show ?thesis
    using z zero one two zero_example_displacements by simp
qed

section \<open>Claims about the fusion buffer\<close>

lemma pack_from_layout:
  "cursor + sum_list (map byteSize es) \<le> length dest \<Longrightarrow>
   pack_from cursor es dest =
     take cursor dest @ concat (map input_bytes es)
       @ drop (cursor + sum_list (map byteSize es)) dest"
proof (induction es arbitrary: cursor dest)
  case Nil
  then show ?case by simp
next
  case (Cons e es)
  let ?n = "byteSize e"
  let ?d = "copy_at dest cursor (input_bytes e)"
  have len: "length ?d = length dest"
    using Cons.prems by (simp add: copy_at_def byteSize_def)
  have fits: "cursor + ?n + sum_list (map byteSize es) \<le> length ?d"
    using Cons.prems len by simp
  have pre: "take (cursor + ?n) ?d = take cursor dest @ input_bytes e"
    using Cons.prems by (simp add: copy_at_def byteSize_def)
  have suf: "drop (cursor + ?n + sum_list (map byteSize es)) ?d =
      drop (cursor + ?n + sum_list (map byteSize es)) dest"
    using Cons.prems by (simp add: copy_at_def byteSize_def add_ac)
  have "pack_from cursor (e # es) dest = pack_from (cursor + ?n) es ?d"
    by simp
  also have "\<dots> = take (cursor + ?n) ?d @ concat (map input_bytes es)
      @ drop (cursor + ?n + sum_list (map byteSize es)) ?d"
    using Cons.IH [OF fits] .
  finally show ?case
    using pre suf by (simp add: add.assoc)
qed

lemma unpack_from_layout:
  "length pre = cursor \<Longrightarrow>
   unpack_from cursor (pre @ concat (map input_bytes es) @ suf) es =
     map (\<lambda>e. e\<lparr>output_bytes := input_bytes e\<rparr>) es"
proof (induction es arbitrary: cursor pre)
  case Nil
  then show ?case by simp
next
  case (Cons e es)
  have tail: "unpack_from (cursor + byteSize e)
      ((pre @ input_bytes e) @ concat (map input_bytes es) @ suf) es =
      map (\<lambda>e. e\<lparr>output_bytes := input_bytes e\<rparr>) es"
    by (rule Cons.IH) (simp add: Cons.prems byteSize_def)
  show ?case
    using tail Cons.prems by (simp add: byteSize_def)
qed

text \<open>
  Claim C7. When the byte sizes of the tensors of a batch add up to no more than the
  capacity of the fusion buffer, packing succeeds, lays the tensors out back to back
  from offset 0 in the order supplied, without padding, and unpacking the packed buffer
  puts into the output location of each entry exactly the bytes of its input.
\<close>

theorem pack_then_unpack_identity:
  assumes "sum_list (map byteSize entries) \<le> length destinationBuffer"
  shows "\<exists>packed. packInto entries destinationBuffer = Inr packed
    \<and> length packed = length destinationBuffer
    \<and> take (sum_list (map byteSize entries)) packed = concat (map input_bytes entries)
    \<and> unpackFrom packed entries = map (\<lambda>e. e\<lparr>output_bytes := input_bytes e\<rparr>) entries
    \<and> map output_bytes (unpackFrom packed entries) = map input_bytes entries"
proof -
  let ?packed = "pack_from 0 entries destinationBuffer"
  have layout: "?packed = concat (map input_bytes entries)
      @ drop (sum_list (map byteSize entries)) destinationBuffer"
    using pack_from_layout [of 0 entries destinationBuffer] assms by simp
  have total: "length (concat (map input_bytes entries)) = sum_list (map byteSize entries)"
    by (induction entries) (simp_all add: byteSize_def)
  have un: "unpackFrom ?packed entries = map (\<lambda>e. e\<lparr>output_bytes := input_bytes e\<rparr>) entries"
    unfolding unpackFrom_def layout
    using unpack_from_layout [of "[]" 0 entries] by simp
  have "packInto entries destinationBuffer = Inr ?packed"
    using assms by (simp add: packInto_def)
  moreover have "length ?packed = length destinationBuffer"
    unfolding layout using assms total by simp
  moreover have "take (sum_list (map byteSize entries)) ?packed = concat (map input_bytes entries)"
    unfolding layout using total by simp
  moreover have "map output_bytes (unpackFrom ?packed entries) = map input_bytes entries"
    unfolding un by (simp add: comp_def)
  ultimately show ?thesis
    using un by blast
qed


theorem pack_then_unpack_identity_witness:
  "sum_list (map byteSize example_fused) \<le> length example_fusion_buffer
   \<and> packInto example_fused example_fusion_buffer = Inr [1, 2, 3, 4, 5, 7, 7, 7]
   \<and> map output_bytes (unpackFrom [1, 2, 3, 4, 5, 7, 7, 7] example_fused) =
       [[1, 2, 3], [], [4, 5]]"
proof -
  have h: "sum_list (map byteSize example_fused) \<le> length example_fusion_buffer"
    by (simp add: example_fused_def example_fusion_buffer_def byteSize_def)
  have p: "packInto example_fused example_fusion_buffer = Inr [1, 2, 3, 4, 5, 7, 7, 7]"
    by (simp add: packInto_def example_fused_def example_fusion_buffer_def byteSize_def
        copy_at_def)
  have i: "map input_bytes example_fused = [[1, 2, 3], [], [4, 5]]"
    by (simp add: example_fused_def)
  obtain packed where a: "packInto example_fused example_fusion_buffer = Inr packed"
    and b: "map output_bytes (unpackFrom packed example_fused) = map input_bytes example_fused"
    using pack_then_unpack_identity [OF h] by blast
  have "packed = [1, 2, 3, 4, 5, 7, 7, 7]"
    using a p by simp
  then show ?thesis
    using h p b i by simp
qed

section \<open>Claims about broadcast\<close>

lemma single_broadcast_call:
  assumes "GetAlgorithmsForType (DataType_Name hs) (dtype (tensor e)) (op_gloo_context this)
      = Inr h"
  shows "broadcast_call (GlooBroadcast_Execute nd hs this [e] resp) =
     Some (elem_type h,
           if rank (op_global_state this) = root_rank e then data (tensor e)
           else data (output_tensor e),
           scast (ucast (shape_num_elements (tensor e)) :: 32 word),
           root_rank e, root_rank e)"
proof -
  obtain out log where x: "GlooBroadcast_Execute nd hs this [e] resp = (out, log)"
    by (cases "GlooBroadcast_Execute nd hs this [e] resp")
  have o: "out = Returned OK"
    using broadcast_outcome [of nd hs this e "[]" resp] assms x by simp
  have c: "collective_calls log =
      [BroadcastOneToAll_run (elem_type h) (gloo_context_m h)
         [if rank (op_global_state this) = root_rank e then data (tensor e)
          else data (output_tensor e)]
         (scast (ucast (shape_num_elements (tensor e)) :: 32 word))
         (root_rank e) (root_rank e)]"
    using broadcast_calls [of nd hs this e "[]" resp] assms x by simp
  show ?thesis
    unfolding x o using c by simp
qed

lemma nth_backend_broadcast:
  assumes "r < length ranks" and "root < length ranks"
  shows "backend_broadcast w n root ranks ! r =
     (if r = root then fst (ranks ! r)
      else (fst (ranks ! r))
        (snd (ranks ! r) :=
           overwrite (fst (ranks ! r) (snd (ranks ! r)))
             (take (n * w) (fst (ranks ! root) (snd (ranks ! root))))))"
  using assms
  by (simp add: backend_broadcast_def Let_def nth_enumerate_eq split_beta)

lemma length_backend_broadcast: "length (backend_broadcast w n root ranks) = length ranks"
  by (simp add: backend_broadcast_def Let_def split_beta)

lemma overwrite_covers:
  "take (length new) (overwrite old new) = new
   \<and> (length old \<le> length new \<longrightarrow> overwrite old new = new)"
  by (simp add: overwrite_def)

lemma broadcast_on_all_ranks_result:
  fixes e :: "nat \<Rightarrow> TensorTableEntry" and mem :: "nat \<Rightarrow> memory"
  assumes R: "R < P"
    and same: "\<forall>r<P. root_rank (e r) = int R \<and> dtype (tensor (e r)) = dt
        \<and> shape_num_elements (tensor (e r)) = n"
    and h: "GetAlgorithmsForType (DataType_Name hs) dt ctx = Inr h"
  shows "broadcast_on_all_ranks nd hs ctx resp (map (\<lambda>r. ([e r], mem r)) [0..<P]) =
     Some (backend_broadcast (sizeof (elem_type h)) (broadcast_count n) R
       (map (\<lambda>r. (mem r,
           if r = R then data (tensor (e r)) else data (output_tensor (e r)))) [0..<P]))"
proof -
  define buf where "buf r = (if r = R then data (tensor (e r)) else data (output_tensor (e r)))"
    for r
  define cl where
    "cl r = Some (elem_type h, buf r, scast (ucast n :: 32 word) :: 64 word, int R, int R)"
    for r
  let ?ranks = "map (\<lambda>r. ([e r], mem r)) [0..<P]"
  have call: "broadcast_call (GlooBroadcast_Execute nd hs (rank_op ctx P r) [e r] resp) = cl r"
    if "r < P" for r
  proof -
    have g: "GetAlgorithmsForType (DataType_Name hs) (dtype (tensor (e r)))
        (op_gloo_context (rank_op ctx P r)) = Inr h"
      using same that h by (simp add: rank_op_def)
    show ?thesis
      using single_broadcast_call [OF g, of nd resp] same that
      by (simp add: cl_def buf_def rank_op_def)
  qed
  have calls: "map (\<lambda>(r, entries, mem).
        broadcast_call
          (GlooBroadcast_Execute nd hs (rank_op ctx (length ?ranks) r) entries resp))
      (enumerate 0 ?ranks) = map cl [0..<P]"
    using call by (simp add: enumerate_map_upt)
  have split: "map cl [0..<P] = cl 0 # map cl [1..<P]"
    using R by (simp add: upt_conv_Cons)
  have all: "list_all (agrees (elem_type h) (scast (ucast n :: 32 word)) (int R) (int R))
      (map cl [0..<P])"
    by (simp add: list_all_iff cl_def)
  have bufs: "zip (map snd ?ranks) (map buffer_of (map cl [0..<P])) =
      map (\<lambda>r. (mem r, buf r)) [0..<P]"
    by (simp add: zip_map_map cl_def comp_def zip_same_conv_map)
  have "broadcast_on_all_ranks nd hs ctx resp ?ranks =
      Some (backend_broadcast (sizeof (elem_type h))
        (unat (scast (ucast n :: 32 word) :: 64 word)) (nat (int R))
        (zip (map snd ?ranks) (map buffer_of (map cl [0..<P]))))"
    unfolding broadcast_on_all_ranks_def Let_def calls
    using all R by (simp add: split cl_def)
  then show ?thesis
    unfolding bufs by (simp add: buf_def broadcast_count_def)
qed

text \<open>
  The conversion of the 64-bit element count to \<open>int\<close> and then to \<open>size_t\<close> keeps a
  count below \<open>2 ^ 31\<close>.
\<close>

lemma scast_ucast_small:
  assumes "unat (n :: 64 word) < 2 ^ 31"
  shows "(scast (ucast n :: 32 word) :: 64 word) = n"
proof -
  have "int (unat n) < int (2 ^ 31)"
    using assms by (simp only: of_nat_less_iff)
  then have u: "uint n < 2 ^ 31"
    unfolding uint_nat by simp
  have "sint (ucast n :: 32 word) = signed_take_bit 31 (uint n)"
    by (simp add: signed_ucast_eq)
  also have "\<dots> = uint n"
  proof (rule signed_take_bit_int_eq_self)
    have "(0::int) \<le> uint n"
      by (rule uint_nonnegative)
    moreover have "- (2 ^ 31) \<le> (0::int)"
      by simp
    ultimately show "- (2 ^ 31) \<le> uint n"
      by (rule order_trans [rotated])
    show "uint n < 2 ^ 31"
      by (rule u)
  qed
  finally have "sint (ucast n :: 32 word) = uint n" .
  then show ?thesis
    by (simp add: scast_eq)
qed

lemma broadcast_count_small: "unat n < 2 ^ 31 \<Longrightarrow> broadcast_count n = unat n"
  by (simp add: broadcast_count_def scast_ucast_small)

lemma broadcast_count_two_to_32: "broadcast_count 4294967296 = 0"
  by (simp add: broadcast_count_def)

text \<open>
  A tensor of \<open>2 ^ 32\<close> elements of one byte, root rank 1, on two ranks. The count
  that reaches the backend is 0, so nothing is copied: after the call the output
  buffer of rank 0 still holds its zero bytes, not the content that the root supplied.
\<close>

theorem GlooBroadcast_count_wraps:
  "broadcast_on_all_ranks False example_helpers 7 ()
      [([big_entry], big_rank_memory 0), ([big_entry], big_rank_memory 1)] \<noteq> None
   \<and> (the (broadcast_on_all_ranks False example_helpers 7 ()
        [([big_entry], big_rank_memory 0), ([big_entry], big_rank_memory 1)]) ! 0)
       (data (output_tensor big_entry)) = replicate 4294967296 0
   \<and> big_rank_memory 1 (data (tensor big_entry)) = replicate 4294967296 2
   \<and> (the (broadcast_on_all_ranks False example_helpers 7 ()
        [([big_entry], big_rank_memory 0), ([big_entry], big_rank_memory 1)]) ! 0)
       (data (output_tensor big_entry)) \<noteq> big_rank_memory 1 (data (tensor big_entry))
   \<and> root_rank big_entry = 1
   \<and> dtype (tensor big_entry) = HOROVOD_UINT8
   \<and> shape_num_elements (tensor big_entry) = 4294967296"
proof -
  have same: "\<forall>r<2::nat. root_rank big_entry = int 1
      \<and> dtype (tensor big_entry) = HOROVOD_UINT8
      \<and> shape_num_elements (tensor big_entry) = 4294967296"
    by (simp add: big_entry_def)
  have h: "GetAlgorithmsForType (DataType_Name example_helpers) HOROVOD_UINT8 7 =
      Inr (new_GlooAlgorithms u_int8_t 7 1)"
    by simp
  have two: "map (\<lambda>r. ([big_entry], big_rank_memory r)) [0..<2] =
      [([big_entry], big_rank_memory 0), ([big_entry], big_rank_memory 1)]"
    by (simp add: numeral_2_eq_2)
  have bufs: "map (\<lambda>r. (big_rank_memory r,
        if r = 1 then data (tensor big_entry) else data (output_tensor big_entry))) [0..<2] =
      [(big_rank_memory 0, 200), (big_rank_memory 1, 100)]"
    by (simp add: numeral_2_eq_2 big_entry_def)
  have res: "broadcast_on_all_ranks False example_helpers 7 ()
      [([big_entry], big_rank_memory 0), ([big_entry], big_rank_memory 1)] =
      Some (backend_broadcast 1 0 1 [(big_rank_memory 0, 200), (big_rank_memory 1, 100)])"
    using broadcast_on_all_ranks_result
      [where R = 1 and P = 2 and e = "\<lambda>r. big_entry" and mem = big_rank_memory
         and hs = example_helpers and ctx = 7 and nd = False and resp = "()", OF _ same h]
    unfolding two bufs broadcast_count_two_to_32
    by (simp add: new_GlooAlgorithms_def)
  have after: "(backend_broadcast 1 0 1
      [(big_rank_memory 0, 200), (big_rank_memory 1, 100)] ! 0) 200 = replicate 4294967296 0"
    by (simp add: nth_backend_broadcast overwrite_def big_rank_memory_def example_memory_def)
  have root: "big_rank_memory 1 100 = replicate 4294967296 2"
    by (simp add: big_rank_memory_def example_memory_def)
  have d: "data (output_tensor big_entry) = 200" "data (tensor big_entry) = 100"
    by (simp_all add: big_entry_def)
  show ?thesis
    unfolding res d using after root by (simp add: big_entry_def)
qed

text \<open>
  Claim C9, amended. Let \<open>P\<close> ranks run \<open>GlooBroadcast::Execute\<close>, each on its own batch
  of one entry, all entries naming the root \<open>R\<close> and having one supported data type and
  one element count \<open>n\<close> below \<open>2 ^ 31\<close>. Then the broadcast takes place with the count
  \<open>n\<close>; rank \<open>R\<close> passes the data of its input tensor and every other rank the data of
  its output tensor; afterwards the output buffer of every other rank starts with the
  \<open>n\<close> elements \<open>c\<close> that the root supplied, and it equals the whole input buffer of
  the root when both buffers hold exactly \<open>n\<close> elements; the memory of the root is as it
  was.
\<close>

theorem GlooBroadcast_from_root:
  fixes e :: "nat \<Rightarrow> TensorTableEntry" and mem :: "nat \<Rightarrow> memory"
  assumes "R < P"
    and "\<forall>r<P. root_rank (e r) = int R \<and> dtype (tensor (e r)) = dt
        \<and> shape_num_elements (tensor (e r)) = n"
    and "spec_native_width dt = Some w"
    and "unat n < 2 ^ 31"
  shows "\<exists>mems c.
      c = take (unat n * w) (mem R (data (tensor (e R))))
    \<and> broadcast_on_all_ranks nd hs ctx resp (map (\<lambda>r. ([e r], mem r)) [0..<P]) = Some mems
    \<and> length mems = P
    \<and> (\<forall>r<P. \<exists>T.
          sizeof T = w
        \<and> broadcast_call (GlooBroadcast_Execute nd hs (rank_op ctx P r) [e r] resp) =
            Some (T, if r = R then data (tensor (e r)) else data (output_tensor (e r)),
                  n, int R, int R))
    \<and> (\<forall>r<P. r \<noteq> R \<longrightarrow>
          take (length c) ((mems ! r) (data (output_tensor (e r)))) = c
        \<and> (length (mem r (data (output_tensor (e r)))) = unat n * w
             \<and> length (mem R (data (tensor (e R)))) = unat n * w \<longrightarrow>
             (mems ! r) (data (output_tensor (e r))) = mem R (data (tensor (e R)))))
    \<and> mems ! R = mem R"
proof -
  obtain h where h: "GetAlgorithmsForType (DataType_Name hs) dt ctx = Inr h"
    and w: "sizeof (elem_type h) = w"
    using GetAlgorithmsForType_supported [OF assms(3), of "DataType_Name hs" ctx] by blast
  have cnt: "broadcast_count n = unat n"
    using assms(4) by (rule broadcast_count_small)
  have casts: "(scast (ucast n :: 32 word) :: 64 word) = n"
    using assms(4) by (rule scast_ucast_small)
  let ?ranks = "map (\<lambda>r. (mem r,
      if r = R then data (tensor (e r)) else data (output_tensor (e r)))) [0..<P]"
  let ?mems = "backend_broadcast w (unat n) R ?ranks"
  let ?c = "take (unat n * w) (mem R (data (tensor (e R))))"
  have res: "broadcast_on_all_ranks nd hs ctx resp (map (\<lambda>r. ([e r], mem r)) [0..<P]) =
      Some ?mems"
    using broadcast_on_all_ranks_result [OF assms(1) assms(2) h, of nd resp mem] w cnt
    by simp
  have len: "length ?mems = P"
    by (simp add: length_backend_broadcast)
  have ptr: "\<exists>T. sizeof T = w
      \<and> broadcast_call (GlooBroadcast_Execute nd hs (rank_op ctx P r) [e r] resp) =
          Some (T, if r = R then data (tensor (e r)) else data (output_tensor (e r)),
                n, int R, int R)"
    if "r < P" for r
  proof -
    have g: "GetAlgorithmsForType (DataType_Name hs) (dtype (tensor (e r)))
        (op_gloo_context (rank_op ctx P r)) = Inr h"
      using assms(2) that h by (simp add: rank_op_def)
    have "broadcast_call (GlooBroadcast_Execute nd hs (rank_op ctx P r) [e r] resp) =
        Some (elem_type h,
          if r = R then data (tensor (e r)) else data (output_tensor (e r)),
          n, int R, int R)"
      using single_broadcast_call [OF g, of nd resp] assms(2) that casts
      by (simp add: rank_op_def)
    then show ?thesis
      using w by blast
  qed
  have other: "(?mems ! r) (data (output_tensor (e r))) =
      overwrite (mem r (data (output_tensor (e r)))) ?c"
    if "r < P" and "r \<noteq> R" for r
    using that assms(1) by (simp add: nth_backend_broadcast)
  have root: "?mems ! R = mem R"
    using assms(1) by (simp add: nth_backend_broadcast)
  have copied: "take (length ?c) ((?mems ! r) (data (output_tensor (e r)))) = ?c
      \<and> (length (mem r (data (output_tensor (e r)))) = unat n * w
           \<and> length (mem R (data (tensor (e R)))) = unat n * w \<longrightarrow>
           (?mems ! r) (data (output_tensor (e r))) = mem R (data (tensor (e R))))"
    if "r < P" and "r \<noteq> R" for r
  proof
    show "take (length ?c) ((?mems ! r) (data (output_tensor (e r)))) = ?c"
      unfolding other [OF that] using overwrite_covers by blast
    show "length (mem r (data (output_tensor (e r)))) = unat n * w
        \<and> length (mem R (data (tensor (e R)))) = unat n * w \<longrightarrow>
        (?mems ! r) (data (output_tensor (e r))) = mem R (data (tensor (e R)))"
      unfolding other [OF that] by (simp add: overwrite_def)
  qed
  show ?thesis
    using res len ptr copied root by blast
qed

theorem GlooBroadcast_from_root_witness:
  "(1::nat) < 3
   \<and> root_rank (example_entry HOROVOD_INT32 100 200 1) = int 1
   \<and> dtype (tensor (example_entry HOROVOD_INT32 100 200 1)) = HOROVOD_INT32
   \<and> shape_num_elements (tensor (example_entry HOROVOD_INT32 100 200 1)) = 3
   \<and> spec_native_width HOROVOD_INT32 = Some 4
   \<and> unat (3 :: 64 word) < 2 ^ 31
   \<and> length (example_rank_memory 0 200) = unat (3 :: 64 word) * 4
   \<and> length (example_rank_memory 1 100) = unat (3 :: 64 word) * 4
   \<and> (\<exists>mems.
         broadcast_on_all_ranks False example_helpers 7 ()
           (map (\<lambda>r. ([example_entry HOROVOD_INT32 100 200 1], example_rank_memory r))
              [0..<3]) = Some mems
       \<and> (mems ! 0) 200 = replicate 12 2
       \<and> (mems ! 2) 200 = replicate 12 2
       \<and> mems ! 1 = example_rank_memory 1)"
proof -
  have a1: "(1::nat) < 3"
    by simp
  have a2: "\<forall>r<3::nat. root_rank (example_entry HOROVOD_INT32 100 200 1) = int 1
         \<and> dtype (tensor (example_entry HOROVOD_INT32 100 200 1)) = HOROVOD_INT32
         \<and> shape_num_elements (tensor (example_entry HOROVOD_INT32 100 200 1)) = 3"
    by (simp add: example_defs)
  have a3: "spec_native_width HOROVOD_INT32 = Some 4"
    by simp
  have a4: "unat (3 :: 64 word) < 2 ^ 31"
    by simp
  have out: "data (output_tensor (example_entry HOROVOD_INT32 100 200 1)) = 200"
    and inp: "data (tensor (example_entry HOROVOD_INT32 100 200 1)) = 100"
    by (simp_all add: example_defs)
  have lo: "length (example_rank_memory r 200) = unat (3 :: 64 word) * 4" for r
    by (simp add: example_rank_memory_def example_memory_def)
  have li: "length (example_rank_memory 1 100) = unat (3 :: 64 word) * 4"
    by (simp add: example_rank_memory_def example_memory_def)
  have rc: "example_rank_memory 1 100 = replicate 12 2"
    by (simp add: example_rank_memory_def example_memory_def)
  obtain mems where res: "broadcast_on_all_ranks False example_helpers 7 ()
           (map (\<lambda>r. ([example_entry HOROVOD_INT32 100 200 1], example_rank_memory r))
              [0..<3]) = Some mems"
    and others: "\<forall>r<3. r \<noteq> 1 \<longrightarrow>
          (length (example_rank_memory r 200) = unat (3 :: 64 word) * 4
             \<and> length (example_rank_memory 1 100) = unat (3 :: 64 word) * 4 \<longrightarrow>
             (mems ! r) 200 = example_rank_memory 1 100)"
    and root: "mems ! 1 = example_rank_memory 1"
    using GlooBroadcast_from_root
      [OF a1 a2 a3 a4, of example_rank_memory False example_helpers 7 "()"]
    unfolding out inp by blast
  have "(mems ! 0) 200 = example_rank_memory 1 100"
    and "(mems ! 2) 200 = example_rank_memory 1 100"
    using others lo li by simp_all
  then show ?thesis
    using a1 a2 [rule_format, of 0] a3 a4 lo [of 0] li res root rc by simp
qed

end
